theory Spec2Isabelle
  imports Main
begin

section \<open>Values of the C++ standard library used by the program\<close>

text \<open>
  \<^verbatim>\<open>std::endl\<close> writes a newline (and flushes).
\<close>

definition endl :: string where
  "endl = ''\<newline>''"

text \<open>
  Decimal digits of a natural number, most significant first; \<open>digits 0 = ''0''\<close>.
\<close>

fun digits :: "nat \<Rightarrow> string" where
  "digits n =
     (if n < 10 then [''0123456789'' ! n]
      else digits (n div 10) @ [''0123456789'' ! (n mod 10)])"

declare digits.simps [simp del]

text \<open>
  \<^verbatim>\<open>std::to_string(int)\<close>, also the rendering of \<^verbatim>\<open>std::cout << int\<close>: the decimal
  digits, with a leading minus sign for a negative value. The program does no arithmetic
  on its \<^verbatim>\<open>int\<close> values, so they are modelled as \<open>int\<close>.
\<close>

definition to_string_int :: "int \<Rightarrow> string" where
  "to_string_int i = (if i < 0 then CHR ''-'' # digits (nat (- i)) else digits (nat i))"

text \<open>
  A \<^verbatim>\<open>double\<close>: \<open>Finite s m e\<close> is the value \<open>(-1)^s * m * 2^e\<close>, which covers every
  finite binary64 number exactly.
\<close>

datatype double = Finite bool nat int | Infinity bool | NaN bool

text \<open>
  The value \<open>m * 2^e * 10^6\<close> rounded to the nearest natural number, ties to even: the
  rounding of \<^verbatim>\<open>printf("%f")\<close> in the default rounding mode.
\<close>

definition scaled6 :: "nat \<Rightarrow> int \<Rightarrow> nat" where
  "scaled6 m e =
     (if 0 \<le> e then m * 2 ^ nat e * 1000000
      else
        (let num = m * 1000000;
             den = 2 ^ nat (- e);
             q = num div den;
             r = num mod den
         in if den < 2 * r \<or> (2 * r = den \<and> odd q) then q + 1 else q))"

definition pad6 :: "string \<Rightarrow> string" where
  "pad6 s = replicate (6 - length s) (CHR ''0'') @ s"

text \<open>
  \<^verbatim>\<open>std::to_string(double)\<close> (C++11 to C++23) is \<^verbatim>\<open>sprintf(buf, "%f", value)\<close>: the integer
  part, a point, and exactly six decimals.
\<close>

fun to_string_double :: "double \<Rightarrow> string" where
  "to_string_double (Finite s m e) =
     (let n = scaled6 m e
      in (if s then ''-'' else '''') @ digits (n div 1000000) @ ''.'' @
         pad6 (digits (n mod 1000000)))"
| "to_string_double (Infinity s) = (if s then ''-inf'' else ''inf'')"
| "to_string_double (NaN s) = (if s then ''-nan'' else ''nan'')"


section \<open>The program's view of its collaborators\<close>

text \<open>
  Every exception in the program is a \<^verbatim>\<open>std::exception\<close>: the \<^verbatim>\<open>std::runtime_error\<close> the
  wrapper's constructor throws, and the errors of the SQL client library.
\<close>

datatype exn = RuntimeError string | SqlError string

fun what :: "exn \<Rightarrow> string" where
  "what (RuntimeError m) = m"
| "what (SqlError m) = m"

text \<open>
  A \<^verbatim>\<open>pqxx::result\<close> is a list of rows, a row a list of fields; \<^verbatim>\<open>field.c_str()\<close> is the
  field's text, empty for a null field.
\<close>

datatype field = Null | Text string

fun c_str :: "field \<Rightarrow> string" where
  "c_str Null = []"
| "c_str (Text s) = s"

type_synonym result = "field list list"

text \<open>
  The program is observed through the calls it makes on the console, the logger and the
  SQL client, in order. A call on the client that can fail carries its outcome.
\<close>

datatype outcome = Returned | Threw exn

datatype event =
    Stdout string
  | LogInfo string
  | LogError string
  | CreateLogger string string
  | Connect string
  | Close string
  | BeginNontransaction string
  | BeginWork string
  | Prepare string
  | BindParameter nat string
  | Exec outcome
  | Commit outcome
  | Abort

text \<open>
  The SQL client and the database behind it are outside the program. Their answers are
  a parameter of the model, and may depend on everything that happened before:
  whether the connection reports open, what executing the prepared statement gives, and
  whether a commit goes through.
\<close>

record client =
  is_open :: "event list \<Rightarrow> bool"
  exec_result :: "event list \<Rightarrow> exn + result"
  commit_result :: "event list \<Rightarrow> exn option"


section \<open>\<^verbatim>\<open>DatabaseConnection\<close>\<close>

datatype work = Work string

text \<open>
  The wrapper's members: the connection (named by the string it was opened with) and the
  manual transaction pointer \<^verbatim>\<open>std::unique_ptr<pqxx::work> txn\<close>. The member \<^verbatim>\<open>stmt\<close> is
  seen through the \<open>Prepare\<close> and \<open>BindParameter\<close> events.
\<close>

record DatabaseConnection =
  conn :: string
  txn :: "work option"

text \<open>The constructor: throws after logging when the connection is not open.\<close>

definition DatabaseConnection_new ::
  "client \<Rightarrow> event list \<Rightarrow> string \<Rightarrow> event list \<times> (exn + DatabaseConnection)" where
  "DatabaseConnection_new c h connStr =
     (let h1 = h @ [Connect connStr]
      in if is_open c h1
         then (h1 @ [LogInfo ''Connection to database established.''],
               Inr \<lparr>conn = connStr, txn = None\<rparr>)
         else (h1 @ [LogError ''Failed to connect to database.''],
               Inl (RuntimeError ''Failed to connect to database.'')))"

text \<open>
  The loop \<^verbatim>\<open>for (i = 0; i < params.size(); ++i) stmt.parameter(i + 1) = params[i]\<close>,
  started at index \<open>i\<close> with the parameters from \<open>i\<close> on.
\<close>

fun bind_loop :: "nat \<Rightarrow> string list \<Rightarrow> event list" where
  "bind_loop i [] = []"
| "bind_loop i (p # ps) = BindParameter (i + 1) p # bind_loop (i + 1) ps"

text \<open>
  Naming the statement and assigning its parameters act on the wrapper's own \<^verbatim>\<open>stmt\<close>
  member, not on the connection.
\<close>

definition prepare_and_bind :: "string \<Rightarrow> string list \<Rightarrow> event list" where
  "prepare_and_bind query params = Prepare query # bind_loop 0 params"

text \<open>The two loops of \<^verbatim>\<open>executeQuery\<close> that copy the result.\<close>

fun row_loop :: "field list \<Rightarrow> string list \<Rightarrow> string list" where
  "row_loop [] rowData = rowData"
| "row_loop (f # fs) rowData = row_loop fs (rowData @ [c_str f])"

fun result_loop :: "result \<Rightarrow> string list list \<Rightarrow> string list list" where
  "result_loop [] result = result"
| "result_loop (row # rows) result = result_loop rows (result @ [row_loop row []])"

text \<open>
  In both calls the transaction object (\<^verbatim>\<open>pqxx::nontransaction\<close>, \<^verbatim>\<open>pqxx::work\<close>) is
  constructed before the \<^verbatim>\<open>try\<close> block and recorded as an event; inside the block the
  execution of the statement, and in \<^verbatim>\<open>executeNonQuery\<close> the commit, are the calls
  whose failure the client decides. A commit that throws is caught by the same handler
  as a failed execution. The calls that the source leaves unguarded, the construction of
  the transaction object and \<^verbatim>\<open>abort\<close> in the handler, return normally.
\<close>

definition executeQuery ::
  "client \<Rightarrow> DatabaseConnection \<Rightarrow> event list \<Rightarrow> string \<Rightarrow> string list
     \<Rightarrow> event list \<times> (exn + string list list)" where
  "executeQuery c w h query params =
     (let h1 = h @ [BeginNontransaction (conn w)] @ prepare_and_bind query params
      in case exec_result c h1 of
           Inl e \<Rightarrow>
             (h1 @ [Exec (Threw e), LogError (''Error executing query: '' @ what e)], Inl e)
         | Inr res \<Rightarrow> (h1 @ [Exec Returned], Inr (result_loop res [])))"

definition executeNonQuery ::
  "client \<Rightarrow> DatabaseConnection \<Rightarrow> event list \<Rightarrow> string \<Rightarrow> string list
     \<Rightarrow> event list \<times> (exn + unit)" where
  "executeNonQuery c w h query params =
     (let h1 = h @ [BeginWork (conn w)] @ prepare_and_bind query params
      in case exec_result c h1 of
           Inl e \<Rightarrow>
             (h1 @ [Exec (Threw e), LogError (''Error executing non-query: '' @ what e), Abort],
              Inl e)
         | Inr res \<Rightarrow>
             (let h2 = h1 @ [Exec Returned]
              in case commit_result c h2 of
                   Some e \<Rightarrow>
                     (h2 @ [Commit (Threw e),
                            LogError (''Error executing non-query: '' @ what e), Abort],
                      Inl e)
                 | None \<Rightarrow> (h2 @ [Commit Returned], Inr ())))"

text \<open>The manual transaction triplet.\<close>

definition beginTransaction ::
  "client \<Rightarrow> DatabaseConnection \<Rightarrow> event list \<Rightarrow> event list \<times> DatabaseConnection" where
  "beginTransaction c w h = (h @ [BeginWork (conn w)], w\<lparr>txn := Some (Work (conn w))\<rparr>)"

definition commitTransaction ::
  "client \<Rightarrow> DatabaseConnection \<Rightarrow> event list \<Rightarrow> event list \<times> (exn + unit)" where
  "commitTransaction c w h =
     (case txn w of
        None \<Rightarrow> (h, Inr ())
      | Some t \<Rightarrow>
          (case commit_result c h of
             Some e \<Rightarrow> (h @ [Commit (Threw e)], Inl e)
           | None \<Rightarrow> (h @ [Commit Returned], Inr ())))"

definition rollbackTransaction ::
  "client \<Rightarrow> DatabaseConnection \<Rightarrow> event list \<Rightarrow> event list \<times> (exn + unit)" where
  "rollbackTransaction c w h =
     (case txn w of
        None \<Rightarrow> (h, Inr ())
      | Some t \<Rightarrow> (h @ [Abort], Inr ()))"

text \<open>The destructor closes the connection if it is still open.\<close>

definition DatabaseConnection_delete ::
  "client \<Rightarrow> DatabaseConnection \<Rightarrow> event list \<Rightarrow> event list" where
  "DatabaseConnection_delete c w h = (if is_open c h then h @ [Close (conn w)] else h)"


section \<open>The roles\<close>

text \<open>
  Each role class has one member, its own wrapper \<^verbatim>\<open>dbConn\<close>, opened with the role's
  credentials by the default member initialiser; a role object is modelled by that
  wrapper. Every operation prints a line and makes one call on the wrapper inside a
  \<^verbatim>\<open>try\<close> block, whose \<^verbatim>\<open>catch (const std::exception&)\<close> clause logs the error.
\<close>

definition Admin_new :: "client \<Rightarrow> event list \<Rightarrow> event list \<times> (exn + DatabaseConnection)" where
  "Admin_new c h = DatabaseConnection_new c h ''dbname=shopdb user=admin password=admin''"

definition Manager_new :: "client \<Rightarrow> event list \<Rightarrow> event list \<times> (exn + DatabaseConnection)" where
  "Manager_new c h = DatabaseConnection_new c h ''dbname=shopdb user=manager password=manager''"

definition Customer_new :: "client \<Rightarrow> event list \<Rightarrow> event list \<times> (exn + DatabaseConnection)" where
  "Customer_new c h =
     DatabaseConnection_new c h ''dbname=shopdb user=customer password=customer''"

subsection \<open>\<^verbatim>\<open>Admin\<close>\<close>

definition Admin_viewOrderStatus ::
  "client \<Rightarrow> DatabaseConnection \<Rightarrow> event list \<Rightarrow>
     int \<Rightarrow> event list \<times> (exn + unit)" where
  "Admin_viewOrderStatus c dbConn h orderId =
     (let h1 = h @ [Stdout (''Viewing status of order ID '' @ to_string_int orderId @
                        '' as Admin.'' @ endl)]
      in case executeQuery c dbConn h1
                ''SELECT status FROM orders WHERE order_id = $1''
                [to_string_int orderId] of
           (h2, Inl e) \<Rightarrow> (h2 @ [LogError (''Error viewing order status: '' @ what e)], Inr ())
         | (h2, Inr r) \<Rightarrow> (h2, Inr ()))"

definition Admin_createOrder ::
  "client \<Rightarrow> DatabaseConnection \<Rightarrow> event list \<Rightarrow>
     event list \<times> (exn + unit)" where
  "Admin_createOrder c dbConn h =
     (let h1 = h @ [Stdout (''Admin creates a new order.'' @ endl)]
      in case executeNonQuery c dbConn h1
                ''INSERT INTO orders (status) VALUES ($1)''
                [''pending''] of
           (h2, Inl e) \<Rightarrow> (h2 @ [LogError (''Error creating order: '' @ what e)], Inr ())
         | (h2, Inr r) \<Rightarrow> (h2, Inr ()))"

definition Admin_cancelOrder ::
  "client \<Rightarrow> DatabaseConnection \<Rightarrow> event list \<Rightarrow>
     int \<Rightarrow> event list \<times> (exn + unit)" where
  "Admin_cancelOrder c dbConn h orderId =
     (let h1 = h @ [Stdout (''Admin cancels order ID '' @ to_string_int orderId @ endl)]
      in case executeNonQuery c dbConn h1
                ''UPDATE orders SET status = $1 WHERE order_id = $2''
                [''canceled'', to_string_int orderId] of
           (h2, Inl e) \<Rightarrow> (h2 @ [LogError (''Error canceling order: '' @ what e)], Inr ())
         | (h2, Inr r) \<Rightarrow> (h2, Inr ()))"

definition Admin_returnOrder ::
  "client \<Rightarrow> DatabaseConnection \<Rightarrow> event list \<Rightarrow>
     int \<Rightarrow> event list \<times> (exn + unit)" where
  "Admin_returnOrder c dbConn h orderId =
     (let h1 = h @ [Stdout (''Admin returns order ID '' @ to_string_int orderId @ endl)]
      in case executeNonQuery c dbConn h1
                ''UPDATE orders SET status = $1 WHERE order_id = $2''
                [''returned'', to_string_int orderId] of
           (h2, Inl e) \<Rightarrow> (h2 @ [LogError (''Error returning order: '' @ what e)], Inr ())
         | (h2, Inr r) \<Rightarrow> (h2, Inr ()))"

definition Admin_addProduct ::
  "client \<Rightarrow> DatabaseConnection \<Rightarrow> event list \<Rightarrow>
     string \<Rightarrow> double \<Rightarrow> int \<Rightarrow>
     event list \<times> (exn + unit)" where
  "Admin_addProduct c dbConn h name price stock =
     (let h1 = h @ [Stdout (''Admin adds a new product: '' @ name @ endl)]
      in case executeNonQuery c dbConn h1
                ''INSERT INTO products (name, price, stock_quantity) VALUES ($1, $2, $3)''
                [name, to_string_double price, to_string_int stock] of
           (h2, Inl e) \<Rightarrow> (h2 @ [LogError (''Error adding product: '' @ what e)], Inr ())
         | (h2, Inr r) \<Rightarrow> (h2, Inr ()))"

definition Admin_deleteProduct ::
  "client \<Rightarrow> DatabaseConnection \<Rightarrow> event list \<Rightarrow>
     int \<Rightarrow> event list \<times> (exn + unit)" where
  "Admin_deleteProduct c dbConn h productId =
     (let h1 = h @ [Stdout (''Admin deletes product with ID: '' @ to_string_int productId @ endl)]
      in case executeNonQuery c dbConn h1
                ''DELETE FROM products WHERE product_id = $1''
                [to_string_int productId] of
           (h2, Inl e) \<Rightarrow> (h2 @ [LogError (''Error deleting product: '' @ what e)], Inr ())
         | (h2, Inr r) \<Rightarrow> (h2, Inr ()))"

subsection \<open>\<^verbatim>\<open>Manager\<close>\<close>

definition Manager_viewOrderStatus ::
  "client \<Rightarrow> DatabaseConnection \<Rightarrow> event list \<Rightarrow>
     int \<Rightarrow> event list \<times> (exn + unit)" where
  "Manager_viewOrderStatus c dbConn h orderId =
     (let h1 = h @ [Stdout (''Viewing status of order ID '' @ to_string_int orderId @
                        '' as Manager.'' @ endl)]
      in case executeQuery c dbConn h1
                ''SELECT status FROM orders WHERE order_id = $1''
                [to_string_int orderId] of
           (h2, Inl e) \<Rightarrow> (h2 @ [LogError (''Error viewing order status: '' @ what e)], Inr ())
         | (h2, Inr r) \<Rightarrow> (h2, Inr ()))"

definition Manager_createOrder ::
  "client \<Rightarrow> DatabaseConnection \<Rightarrow> event list \<Rightarrow>
     event list \<times> (exn + unit)" where
  "Manager_createOrder c dbConn h =
     (let h1 = h @ [Stdout (''Manager creates a new order.'' @ endl)]
      in case executeNonQuery c dbConn h1
                ''INSERT INTO orders (status) VALUES ($1)''
                [''pending''] of
           (h2, Inl e) \<Rightarrow> (h2 @ [LogError (''Error creating order: '' @ what e)], Inr ())
         | (h2, Inr r) \<Rightarrow> (h2, Inr ()))"

definition Manager_cancelOrder ::
  "client \<Rightarrow> DatabaseConnection \<Rightarrow> event list \<Rightarrow>
     int \<Rightarrow> event list \<times> (exn + unit)" where
  "Manager_cancelOrder c dbConn h orderId =
     (let h1 = h @ [Stdout (''Manager cancels order ID '' @ to_string_int orderId @ endl)]
      in case executeNonQuery c dbConn h1
                ''UPDATE orders SET status = $1 WHERE order_id = $2''
                [''canceled'', to_string_int orderId] of
           (h2, Inl e) \<Rightarrow> (h2 @ [LogError (''Error canceling order: '' @ what e)], Inr ())
         | (h2, Inr r) \<Rightarrow> (h2, Inr ()))"

definition Manager_returnOrder ::
  "client \<Rightarrow> DatabaseConnection \<Rightarrow> event list \<Rightarrow>
     int \<Rightarrow> event list \<times> (exn + unit)" where
  "Manager_returnOrder c dbConn h orderId =
     (let h1 = h @ [Stdout (''Manager returns order ID '' @ to_string_int orderId @ endl)]
      in case executeNonQuery c dbConn h1
                ''UPDATE orders SET status = $1 WHERE order_id = $2''
                [''returned'', to_string_int orderId] of
           (h2, Inl e) \<Rightarrow> (h2 @ [LogError (''Error returning order: '' @ what e)], Inr ())
         | (h2, Inr r) \<Rightarrow> (h2, Inr ()))"

definition Manager_approveOrder ::
  "client \<Rightarrow> DatabaseConnection \<Rightarrow> event list \<Rightarrow>
     int \<Rightarrow> event list \<times> (exn + unit)" where
  "Manager_approveOrder c dbConn h orderId =
     (let h1 = h @ [Stdout (''Manager approves order ID '' @ to_string_int orderId @ endl)]
      in case executeNonQuery c dbConn h1
                ''UPDATE orders SET status = $1 WHERE order_id = $2''
                [''approved'', to_string_int orderId] of
           (h2, Inl e) \<Rightarrow> (h2 @ [LogError (''Error approving order: '' @ what e)], Inr ())
         | (h2, Inr r) \<Rightarrow> (h2, Inr ()))"

subsection \<open>\<^verbatim>\<open>Customer\<close>\<close>

definition Customer_viewOrderStatus ::
  "client \<Rightarrow> DatabaseConnection \<Rightarrow> event list \<Rightarrow>
     int \<Rightarrow> event list \<times> (exn + unit)" where
  "Customer_viewOrderStatus c dbConn h orderId =
     (let h1 = h @ [Stdout (''Viewing status of order ID '' @ to_string_int orderId @
                        '' as Customer.'' @ endl)]
      in case executeQuery c dbConn h1
                ''SELECT status FROM orders WHERE order_id = $1''
                [to_string_int orderId] of
           (h2, Inl e) \<Rightarrow> (h2 @ [LogError (''Error viewing order status: '' @ what e)], Inr ())
         | (h2, Inr r) \<Rightarrow> (h2, Inr ()))"

definition Customer_createOrder ::
  "client \<Rightarrow> DatabaseConnection \<Rightarrow> event list \<Rightarrow>
     event list \<times> (exn + unit)" where
  "Customer_createOrder c dbConn h =
     (let h1 = h @ [Stdout (''Customer creates a new order.'' @ endl)]
      in case executeNonQuery c dbConn h1
                ''INSERT INTO orders (status) VALUES ($1)''
                [''pending''] of
           (h2, Inl e) \<Rightarrow> (h2 @ [LogError (''Error creating order: '' @ what e)], Inr ())
         | (h2, Inr r) \<Rightarrow> (h2, Inr ()))"

definition Customer_cancelOrder ::
  "client \<Rightarrow> DatabaseConnection \<Rightarrow> event list \<Rightarrow>
     int \<Rightarrow> event list \<times> (exn + unit)" where
  "Customer_cancelOrder c dbConn h orderId =
     (let h1 = h @ [Stdout (''Customer cancels order ID '' @ to_string_int orderId @ endl)]
      in case executeNonQuery c dbConn h1
                ''UPDATE orders SET status = $1 WHERE order_id = $2''
                [''canceled'', to_string_int orderId] of
           (h2, Inl e) \<Rightarrow> (h2 @ [LogError (''Error canceling order: '' @ what e)], Inr ())
         | (h2, Inr r) \<Rightarrow> (h2, Inr ()))"

definition Customer_returnOrder ::
  "client \<Rightarrow> DatabaseConnection \<Rightarrow> event list \<Rightarrow>
     int \<Rightarrow> event list \<times> (exn + unit)" where
  "Customer_returnOrder c dbConn h orderId =
     (let h1 = h @ [Stdout (''Customer returns order ID '' @ to_string_int orderId @ endl)]
      in case executeNonQuery c dbConn h1
                ''UPDATE orders SET status = $1 WHERE order_id = $2''
                [''returned'', to_string_int orderId] of
           (h2, Inl e) \<Rightarrow> (h2 @ [LogError (''Error returning order: '' @ what e)], Inr ())
         | (h2, Inr r) \<Rightarrow> (h2, Inr ()))"

definition Customer_addToOrder ::
  "client \<Rightarrow> DatabaseConnection \<Rightarrow> event list \<Rightarrow>
     int \<Rightarrow> int \<Rightarrow> int \<Rightarrow> event list \<times> (exn + unit)" where
  "Customer_addToOrder c dbConn h orderId productId quantity =
     (let h1 = h @ [Stdout (''Customer adds product ID '' @ to_string_int productId @
                        '' to order ID '' @ to_string_int orderId @ endl)]
      in case executeNonQuery c dbConn h1
                ''INSERT INTO order_items (order_id, product_id, quantity) VALUES ($1, $2, $3)''
                [to_string_int orderId, to_string_int productId, to_string_int quantity] of
           (h2, Inl e) \<Rightarrow> (h2 @ [LogError (''Error adding product to order: '' @ what e)], Inr ())
         | (h2, Inr r) \<Rightarrow> (h2, Inr ()))"

definition Customer_removeFromOrder ::
  "client \<Rightarrow> DatabaseConnection \<Rightarrow> event list \<Rightarrow>
     int \<Rightarrow> int \<Rightarrow> event list \<times> (exn + unit)" where
  "Customer_removeFromOrder c dbConn h orderId productId =
     (let h1 = h @ [Stdout (''Customer removes product ID '' @ to_string_int productId @
                        '' from order ID '' @ to_string_int orderId @ endl)]
      in case executeNonQuery c dbConn h1
                ''DELETE FROM order_items WHERE order_id = $1 AND product_id = $2''
                [to_string_int orderId, to_string_int productId] of
           (h2, Inl e) \<Rightarrow> (h2 @ [LogError (''Error removing product from order: '' @ what e)], Inr ())
         | (h2, Inr r) \<Rightarrow> (h2, Inr ()))"

subsection \<open>The operations as values\<close>

text \<open>
  One constructor for each public operation of each role, with its arguments, and the
  call it stands for.
\<close>

datatype operation =
    AdminViewOrderStatus int
  | AdminCreateOrder
  | AdminCancelOrder int
  | AdminReturnOrder int
  | AdminAddProduct string double int
  | AdminDeleteProduct int
  | ManagerViewOrderStatus int
  | ManagerCreateOrder
  | ManagerCancelOrder int
  | ManagerReturnOrder int
  | ManagerApproveOrder int
  | CustomerViewOrderStatus int
  | CustomerCreateOrder
  | CustomerCancelOrder int
  | CustomerReturnOrder int
  | CustomerAddToOrder int int int
  | CustomerRemoveFromOrder int int

fun invoke ::
  "client \<Rightarrow> DatabaseConnection \<Rightarrow> event list \<Rightarrow> operation \<Rightarrow> event list \<times> (exn + unit)" where
  "invoke c w h (AdminViewOrderStatus orderId) = Admin_viewOrderStatus c w h orderId"
| "invoke c w h AdminCreateOrder = Admin_createOrder c w h"
| "invoke c w h (AdminCancelOrder orderId) = Admin_cancelOrder c w h orderId"
| "invoke c w h (AdminReturnOrder orderId) = Admin_returnOrder c w h orderId"
| "invoke c w h (AdminAddProduct name price stock) = Admin_addProduct c w h name price stock"
| "invoke c w h (AdminDeleteProduct productId) = Admin_deleteProduct c w h productId"
| "invoke c w h (ManagerViewOrderStatus orderId) = Manager_viewOrderStatus c w h orderId"
| "invoke c w h ManagerCreateOrder = Manager_createOrder c w h"
| "invoke c w h (ManagerCancelOrder orderId) = Manager_cancelOrder c w h orderId"
| "invoke c w h (ManagerReturnOrder orderId) = Manager_returnOrder c w h orderId"
| "invoke c w h (ManagerApproveOrder orderId) = Manager_approveOrder c w h orderId"
| "invoke c w h (CustomerViewOrderStatus orderId) = Customer_viewOrderStatus c w h orderId"
| "invoke c w h CustomerCreateOrder = Customer_createOrder c w h"
| "invoke c w h (CustomerCancelOrder orderId) = Customer_cancelOrder c w h orderId"
| "invoke c w h (CustomerReturnOrder orderId) = Customer_returnOrder c w h orderId"
| "invoke c w h (CustomerAddToOrder orderId productId quantity) =
     Customer_addToOrder c w h orderId productId quantity"
| "invoke c w h (CustomerRemoveFromOrder orderId productId) =
     Customer_removeFromOrder c w h orderId productId"

subsection \<open>The shared operations as the specification describes them\<close>

text \<open>
  The specification says that the four operations of \<^verbatim>\<open>User\<close> are the same in the three
  roles but for the role's name on the console. These four definitions follow that
  sentence, not the source: one operation each, with the role's name as a parameter.
  They are compared with the twelve definitions from the source below.
\<close>

definition spec_viewOrderStatus ::
  "string \<Rightarrow> client \<Rightarrow> DatabaseConnection \<Rightarrow>
     event list \<Rightarrow> int \<Rightarrow> event list \<times> (exn + unit)" where
  "spec_viewOrderStatus role c dbConn h orderId =
     (let h1 = h @ [Stdout (''Viewing status of order ID '' @ to_string_int orderId @
                        '' as '' @ role @ ''.'' @ endl)]
      in case executeQuery c dbConn h1
                ''SELECT status FROM orders WHERE order_id = $1''
                [to_string_int orderId] of
           (h2, Inl e) \<Rightarrow> (h2 @ [LogError (''Error viewing order status: '' @ what e)], Inr ())
         | (h2, Inr r) \<Rightarrow> (h2, Inr ()))"

definition spec_createOrder ::
  "string \<Rightarrow> client \<Rightarrow> DatabaseConnection \<Rightarrow>
     event list \<Rightarrow> event list \<times> (exn + unit)" where
  "spec_createOrder role c dbConn h =
     (let h1 = h @ [Stdout (role @ '' creates a new order.'' @ endl)]
      in case executeNonQuery c dbConn h1
                ''INSERT INTO orders (status) VALUES ($1)''
                [''pending''] of
           (h2, Inl e) \<Rightarrow> (h2 @ [LogError (''Error creating order: '' @ what e)], Inr ())
         | (h2, Inr r) \<Rightarrow> (h2, Inr ()))"

definition spec_cancelOrder ::
  "string \<Rightarrow> client \<Rightarrow> DatabaseConnection \<Rightarrow>
     event list \<Rightarrow> int \<Rightarrow> event list \<times> (exn + unit)" where
  "spec_cancelOrder role c dbConn h orderId =
     (let h1 = h @ [Stdout (role @ '' cancels order ID '' @ to_string_int orderId @ endl)]
      in case executeNonQuery c dbConn h1
                ''UPDATE orders SET status = $1 WHERE order_id = $2''
                [''canceled'', to_string_int orderId] of
           (h2, Inl e) \<Rightarrow> (h2 @ [LogError (''Error canceling order: '' @ what e)], Inr ())
         | (h2, Inr r) \<Rightarrow> (h2, Inr ()))"

definition spec_returnOrder ::
  "string \<Rightarrow> client \<Rightarrow> DatabaseConnection \<Rightarrow>
     event list \<Rightarrow> int \<Rightarrow> event list \<times> (exn + unit)" where
  "spec_returnOrder role c dbConn h orderId =
     (let h1 = h @ [Stdout (role @ '' returns order ID '' @ to_string_int orderId @ endl)]
      in case executeNonQuery c dbConn h1
                ''UPDATE orders SET status = $1 WHERE order_id = $2''
                [''returned'', to_string_int orderId] of
           (h2, Inl e) \<Rightarrow> (h2 @ [LogError (''Error returning order: '' @ what e)], Inr ())
         | (h2, Inr r) \<Rightarrow> (h2, Inr ()))"


definition spec_new ::
  "string \<Rightarrow> client \<Rightarrow> event list \<Rightarrow> event list \<times> (exn + DatabaseConnection)" where
  "spec_new user c h =
     DatabaseConnection_new c h (''dbname=shopdb user='' @ user @ '' password='' @ user)"


section \<open>The menu dispatcher\<close>

definition showMainMenu :: "event list \<Rightarrow> event list" where
  "showMainMenu h =
     h @ [Stdout ''1. Login as Admin\<newline>'',
          Stdout ''2. Login as Manager\<newline>'',
          Stdout ''3. Login as Customer\<newline>'',
          Stdout ''4. Exit\<newline>'']"

text \<open>
  The blocks of \<^verbatim>\<open>case 1\<close>, \<^verbatim>\<open>case 2\<close> and \<^verbatim>\<open>case 3\<close>: a role object is constructed, a
  fixed sequence of operations runs on it, and the object is destroyed at the end of the
  block. An exception leaves the block at once. The literal \<^verbatim>\<open>99.99\<close> is the binary64
  number \<open>7036170730324623 * 2^-46\<close>.
\<close>

definition case_1 :: "client \<Rightarrow> event list \<Rightarrow> event list \<times> (exn + unit)" where
  "case_1 c h =
     (case Admin_new c h of
        (h1, Inl e) \<Rightarrow> (h1, Inl e)
      | (h1, Inr admin) \<Rightarrow>
          (case Admin_addProduct c admin h1 ''Product1''
                  (Finite False 7036170730324623 (- 46)) 100 of
             (h2, Inl e) \<Rightarrow> (h2, Inl e)
           | (h2, Inr u) \<Rightarrow>
               (case Admin_deleteProduct c admin h2 1 of
                  (h3, Inl e) \<Rightarrow> (h3, Inl e)
                | (h3, Inr u') \<Rightarrow> (DatabaseConnection_delete c admin h3, Inr ()))))"

definition case_2 :: "client \<Rightarrow> event list \<Rightarrow> event list \<times> (exn + unit)" where
  "case_2 c h =
     (case Manager_new c h of
        (h1, Inl e) \<Rightarrow> (h1, Inl e)
      | (h1, Inr manager) \<Rightarrow>
          (case Manager_approveOrder c manager h1 1 of
             (h2, Inl e) \<Rightarrow> (h2, Inl e)
           | (h2, Inr u) \<Rightarrow> (DatabaseConnection_delete c manager h2, Inr ())))"

definition case_3 :: "client \<Rightarrow> event list \<Rightarrow> event list \<times> (exn + unit)" where
  "case_3 c h =
     (case Customer_new c h of
        (h1, Inl e) \<Rightarrow> (h1, Inl e)
      | (h1, Inr customer) \<Rightarrow>
          (case Customer_createOrder c customer h1 of
             (h2, Inl e) \<Rightarrow> (h2, Inl e)
           | (h2, Inr u) \<Rightarrow>
               (case Customer_addToOrder c customer h2 1 101 2 of
                  (h3, Inl e) \<Rightarrow> (h3, Inl e)
                | (h3, Inr u') \<Rightarrow> (DatabaseConnection_delete c customer h3, Inr ()))))"

subsection \<open>Standard input\<close>

text \<open>
  What the successive extractions \<^verbatim>\<open>std::cin >> choice\<close> meet on standard input: a
  decimal integer of any size, text that is no integer, or the end of the file. The end
  of the list is not the end of the file: there the program waits for more input.
\<close>

datatype token = Number int | NotANumber string | EndOfFile

record istream =
  tokens :: "token list"
  failbit :: bool

definition INT_MAX :: int where
  "INT_MAX = 2147483647"

definition INT_MIN :: int where
  "INT_MIN = - 2147483648"

text \<open>
  \<^verbatim>\<open>std::cin >> choice\<close> for a 32-bit \<^verbatim>\<open>int\<close> (C++11), given the value \<open>old\<close> that the
  variable holds before. The result is \<open>None\<close> when the call waits for input. Once the
  stream has failed, and at the end of the file, nothing is read and the variable is
  left as it is. Text that is no integer stores 0 and sets the failbit; an integer out
  of range stores the nearest bound and sets the failbit. The program never clears the
  failbit.
\<close>

definition cin_extract :: "istream \<Rightarrow> int \<Rightarrow> (istream \<times> int) option" where
  "cin_extract cin old =
     (if failbit cin then Some (cin, old)
      else case tokens cin of
             [] \<Rightarrow> None
           | EndOfFile # ts \<Rightarrow> Some (cin\<lparr>failbit := True\<rparr>, old)
           | NotANumber s # ts \<Rightarrow> Some (cin\<lparr>failbit := True\<rparr>, 0)
           | Number v # ts \<Rightarrow>
               if v < INT_MIN then Some (\<lparr>tokens = ts, failbit = True\<rparr>, INT_MIN)
               else if INT_MAX < v then Some (\<lparr>tokens = ts, failbit = True\<rparr>, INT_MAX)
               else Some (\<lparr>tokens = ts, failbit = False\<rparr>, v))"

subsection \<open>The loop\<close>

text \<open>
  One turn of the loop \<^verbatim>\<open>while (running)\<close> ends in one of three ways: the menu is on
  the screen and the program waits in \<^verbatim>\<open>std::cin >> choice\<close>; the body is done, with the
  new value of \<^verbatim>\<open>running\<close>, the stream and the trace; or an exception leaves \<^verbatim>\<open>main\<close>.
\<close>

datatype turn = Blocked "event list" | Next bool istream "event list" | Uncaught exn "event list"


text \<open>
  The body of the loop. The variable \<^verbatim>\<open>choice\<close> is declared without a value in every
  turn; the value it holds when the extraction leaves it alone is indeterminate, and is
  the parameter \<open>junk\<close> of the model, which may depend on everything that happened before.
\<close>

definition loop_body :: "client \<Rightarrow> (event list \<Rightarrow> int) \<Rightarrow> istream \<Rightarrow> event list \<Rightarrow> turn" where
  "loop_body c junk cin h =
     (let h1 = showMainMenu h
      in case cin_extract cin (junk h1) of
           None \<Rightarrow> Blocked h1
         | Some (cin', choice) \<Rightarrow>
             if choice = 1 then
               (case case_1 c h1 of
                  (h2, Inl e) \<Rightarrow> Uncaught e h2
                | (h2, Inr u) \<Rightarrow> Next True cin' h2)
             else if choice = 2 then
               (case case_2 c h1 of
                  (h2, Inl e) \<Rightarrow> Uncaught e h2
                | (h2, Inr u) \<Rightarrow> Next True cin' h2)
             else if choice = 3 then
               (case case_3 c h1 of
                  (h2, Inl e) \<Rightarrow> Uncaught e h2
                | (h2, Inr u) \<Rightarrow> Next True cin' h2)
             else if choice = 4 then Next False cin' h1
             else Next True cin' (h1 @ [Stdout ''Invalid choice. Please try again.\<newline>'']))"

text \<open>
  Where the dispatcher stands when the program stops or waits: the menu is on the screen
  and the program waits for input, \<^verbatim>\<open>main\<close> has returned, or an exception has left
  \<^verbatim>\<open>main\<close> and the program is terminated.
\<close>

datatype dispatcher = ShowingMenu | Exited | Terminated exn

text \<open>
  The loop may run forever, so it is given fuel: one unit for each test of
  \<^verbatim>\<open>running\<close>. The result is \<open>None\<close> when the fuel is used up before the program stops or
  waits.
\<close>

fun main_loop ::
  "client \<Rightarrow> (event list \<Rightarrow> int) \<Rightarrow> nat \<Rightarrow> bool \<Rightarrow> istream \<Rightarrow> event list
     \<Rightarrow> (event list \<times> dispatcher) option" where
  "main_loop c junk 0 running cin h = None"
| "main_loop c junk (Suc fuel) False cin h = Some (h, Exited)"
| "main_loop c junk (Suc fuel) True cin h =
     (case loop_body c junk cin h of
        Blocked h1 \<Rightarrow> Some (h1, ShowingMenu)
      | Uncaught e h2 \<Rightarrow> Some (h2, Terminated e)
      | Next running' cin' h' \<Rightarrow> main_loop c junk fuel running' cin' h')"

definition main ::
  "client \<Rightarrow> (event list \<Rightarrow> int) \<Rightarrow> nat \<Rightarrow> token list \<Rightarrow> (event list \<times> dispatcher) option" where
  "main c junk fuel input =
     main_loop c junk fuel True \<lparr>tokens = input, failbit = False\<rparr>
       [CreateLogger ''basic_logger'' ''logs.txt'']"


section \<open>Observations on a trace\<close>

text \<open>
  A transaction is committed by a commit that returns, and rolled back by a call of
  \<^verbatim>\<open>abort\<close>.
\<close>

definition commits :: "event list \<Rightarrow> nat" where
  "commits t = length (filter (\<lambda>ev. ev = Commit Returned) t)"

definition rollbacks :: "event list \<Rightarrow> nat" where
  "rollbacks t = length (filter (\<lambda>ev. ev = Abort) t)"

text \<open>
  The statements a trace issues: each statement text that is prepared, with the
  parameters bound to it, by position, in the order of binding.
\<close>

fun bound_params :: "event list \<Rightarrow> (nat \<times> string) list" where
  "bound_params (BindParameter i v # evs) = (i, v) # bound_params evs"
| "bound_params evs = []"

fun statements :: "event list \<Rightarrow> (string \<times> (nat \<times> string) list) list" where
  "statements [] = []"
| "statements (Prepare q # evs) = (q, bound_params evs) # statements evs"
| "statements (ev # evs) = statements evs"

text \<open>The number of statement executions in a trace, failed ones included.\<close>

fun is_exec :: "event \<Rightarrow> bool" where
  "is_exec (Exec oc) = True"
| "is_exec ev = False"

definition executions :: "event list \<Rightarrow> nat" where
  "executions t = length (filter is_exec t)"

text \<open>What a call adds to the trace \<open>h\<close> it started from.\<close>

definition added :: "event list \<Rightarrow> event list \<times> 'a \<Rightarrow> event list" where
  "added h run = drop (length h) (fst run)"

text \<open>
  The \<^verbatim>\<open>try\<close>/\<^verbatim>\<open>catch\<close> frame that every role operation puts around its call on the
  wrapper, as a function of that call's run: used to reason about the seventeen
  operations at once.
\<close>

definition catch_and_log :: "string \<Rightarrow> event list \<times> (exn + 'a) \<Rightarrow> event list \<times> (exn + unit)" where
  "catch_and_log m run =
     (case run of
        (h2, Inl e) \<Rightarrow> (h2 @ [LogError (m @ what e)], Inr ())
      | (h2, Inr r) \<Rightarrow> (h2, Inr ()))"

text \<open>The error messages a trace logs, and the exceptions the client threw in it.\<close>

fun log_errors :: "event list \<Rightarrow> string list" where
  "log_errors [] = []"
| "log_errors (LogError m # evs) = m # log_errors evs"
| "log_errors (ev # evs) = log_errors evs"

fun thrown :: "event list \<Rightarrow> exn list" where
  "thrown [] = []"
| "thrown (Exec (Threw e) # evs) = e # thrown evs"
| "thrown (Commit (Threw e) # evs) = e # thrown evs"
| "thrown (ev # evs) = thrown evs"

text \<open>
  The message with which each operation's own \<^verbatim>\<open>catch\<close> clause logs, and the message
  with which the wrapper call that the operation makes logs before it throws on.
\<close>

fun catch_message :: "operation \<Rightarrow> string" where
  "catch_message (AdminViewOrderStatus orderId) = ''Error viewing order status: ''"
| "catch_message AdminCreateOrder = ''Error creating order: ''"
| "catch_message (AdminCancelOrder orderId) = ''Error canceling order: ''"
| "catch_message (AdminReturnOrder orderId) = ''Error returning order: ''"
| "catch_message (AdminAddProduct name price stock) = ''Error adding product: ''"
| "catch_message (AdminDeleteProduct productId) = ''Error deleting product: ''"
| "catch_message (ManagerViewOrderStatus orderId) = ''Error viewing order status: ''"
| "catch_message ManagerCreateOrder = ''Error creating order: ''"
| "catch_message (ManagerCancelOrder orderId) = ''Error canceling order: ''"
| "catch_message (ManagerReturnOrder orderId) = ''Error returning order: ''"
| "catch_message (ManagerApproveOrder orderId) = ''Error approving order: ''"
| "catch_message (CustomerViewOrderStatus orderId) = ''Error viewing order status: ''"
| "catch_message CustomerCreateOrder = ''Error creating order: ''"
| "catch_message (CustomerCancelOrder orderId) = ''Error canceling order: ''"
| "catch_message (CustomerReturnOrder orderId) = ''Error returning order: ''"
| "catch_message (CustomerAddToOrder orderId productId quantity) =
     ''Error adding product to order: ''"
| "catch_message (CustomerRemoveFromOrder orderId productId) =
     ''Error removing product from order: ''"

fun wrapper_message :: "operation \<Rightarrow> string" where
  "wrapper_message (AdminViewOrderStatus orderId) = ''Error executing query: ''"
| "wrapper_message (ManagerViewOrderStatus orderId) = ''Error executing query: ''"
| "wrapper_message (CustomerViewOrderStatus orderId) = ''Error executing query: ''"
| "wrapper_message op = ''Error executing non-query: ''"

text \<open>The console line each operation prints before its call on the wrapper.\<close>

fun console_line :: "operation \<Rightarrow> string" where
  "console_line (AdminViewOrderStatus orderId) =
     ''Viewing status of order ID '' @ to_string_int orderId @ '' as Admin.'' @ endl"
| "console_line AdminCreateOrder = ''Admin creates a new order.'' @ endl"
| "console_line (AdminCancelOrder orderId) =
     ''Admin cancels order ID '' @ to_string_int orderId @ endl"
| "console_line (AdminReturnOrder orderId) =
     ''Admin returns order ID '' @ to_string_int orderId @ endl"
| "console_line (AdminAddProduct name price stock) =
     ''Admin adds a new product: '' @ name @ endl"
| "console_line (AdminDeleteProduct productId) =
     ''Admin deletes product with ID: '' @ to_string_int productId @ endl"
| "console_line (ManagerViewOrderStatus orderId) =
     ''Viewing status of order ID '' @ to_string_int orderId @ '' as Manager.'' @ endl"
| "console_line ManagerCreateOrder = ''Manager creates a new order.'' @ endl"
| "console_line (ManagerCancelOrder orderId) =
     ''Manager cancels order ID '' @ to_string_int orderId @ endl"
| "console_line (ManagerReturnOrder orderId) =
     ''Manager returns order ID '' @ to_string_int orderId @ endl"
| "console_line (ManagerApproveOrder orderId) =
     ''Manager approves order ID '' @ to_string_int orderId @ endl"
| "console_line (CustomerViewOrderStatus orderId) =
     ''Viewing status of order ID '' @ to_string_int orderId @ '' as Customer.'' @ endl"
| "console_line CustomerCreateOrder = ''Customer creates a new order.'' @ endl"
| "console_line (CustomerCancelOrder orderId) =
     ''Customer cancels order ID '' @ to_string_int orderId @ endl"
| "console_line (CustomerReturnOrder orderId) =
     ''Customer returns order ID '' @ to_string_int orderId @ endl"
| "console_line (CustomerAddToOrder orderId productId quantity) =
     ''Customer adds product ID '' @ to_string_int productId @ '' to order ID '' @
     to_string_int orderId @ endl"
| "console_line (CustomerRemoveFromOrder orderId productId) =
     ''Customer removes product ID '' @ to_string_int productId @ '' from order ID '' @
     to_string_int orderId @ endl"

text \<open>An indeterminate value for concrete runs.\<close>

definition junk0 :: "event list \<Rightarrow> int" where
  "junk0 h = 0"

text \<open>A statement text that deletes from the given relation.\<close>

definition is_delete_from :: "string \<Rightarrow> string \<Rightarrow> bool" where
  "is_delete_from relation q =
     (q = ''DELETE FROM '' @ relation \<or>
      take (length (''DELETE FROM '' @ relation @ '' '')) q = ''DELETE FROM '' @ relation @ '' '')"

text \<open>
  The literal \<^verbatim>\<open>9.99\<close> is the binary64 number \<^verbatim>\<open>0x1.3fae147ae147bp+3\<close>, that is
  \<open>5623870034678907 * 2^-49\<close>.
\<close>

definition double_9_99 :: double where
  "double_9_99 = Finite False 5623870034678907 (- 49)"

text \<open>
  Clients for concrete runs: one that always succeeds, one whose statements fail, one
  whose commits fail, one whose connection is not open, and one whose queries give two
  rows of one column.
\<close>

definition client_commit_fails :: client where
  "client_commit_fails =
     \<lparr>is_open = (\<lambda>h. True), exec_result = (\<lambda>h. Inr []),
      commit_result = (\<lambda>h. Some (SqlError ''could not serialize access''))\<rparr>"

definition client_closed :: client where
  "client_closed =
     \<lparr>is_open = (\<lambda>h. False), exec_result = (\<lambda>h. Inr []), commit_result = (\<lambda>h. None)\<rparr>"

definition client_rows :: client where
  "client_rows =
     \<lparr>is_open = (\<lambda>h. True),
      exec_result = (\<lambda>h. Inr [[Text ''pending''], [Null]]),
      commit_result = (\<lambda>h. None)\<rparr>"

definition client_ok :: client where
  "client_ok =
     \<lparr>is_open = (\<lambda>h. True), exec_result = (\<lambda>h. Inr []), commit_result = (\<lambda>h. None)\<rparr>"

definition client_failing :: client where
  "client_failing =
     \<lparr>is_open = (\<lambda>h. True), exec_result = (\<lambda>h. Inl (SqlError ''relation does not exist'')),
      commit_result = (\<lambda>h. None)\<rparr>"

definition wrapper0 :: DatabaseConnection where
  "wrapper0 = \<lparr>conn = ''dbname=shopdb user=admin password=admin'', txn = None\<rparr>"


section \<open>The renderings on the values the program uses\<close>

lemma scaled6_9_99: "scaled6 5623870034678907 (- 49) = 9990000"
  by (simp add: scaled6_def Let_def)

lemma digits_9: "digits 9 = ''9''"
  by (simp add: digits.simps)

lemma digits_990000: "digits 990000 = ''990000''"
  by (simp add: digits.simps)

lemma to_string_double_9_99: "to_string_double double_9_99 = ''9.990000''"
  by (simp add: double_9_99_def scaled6_9_99 digits_9 digits_990000 pad6_def)

lemma to_string_int_1: "to_string_int 1 = ''1''"
  by (simp add: to_string_int_def digits.simps)

lemma to_string_int_2: "to_string_int 2 = ''2''"
  by (simp add: to_string_int_def digits.simps)

lemma to_string_int_10: "to_string_int 10 = ''10''"
  by (simp add: to_string_int_def digits.simps)

lemma to_string_int_101: "to_string_int 101 = ''101''"
  by (simp add: to_string_int_def digits.simps)

text \<open>
  No \<^verbatim>\<open>double\<close> at all is rendered as \<open>9.99\<close>: a finite one has six decimals.
\<close>

lemma length_digits: "1 \<le> length (digits n)"
  by (subst digits.simps) simp

lemma length_pad6: "6 \<le> length (pad6 s)"
  by (simp add: pad6_def)

lemma to_string_double_not_9_99: "to_string_double d \<noteq> ''9.99''"
proof (cases d)
  case (Finite s m e)
  have "1 \<le> length (digits (scaled6 m e div 1000000))"
    by (rule length_digits)
  moreover have "6 \<le> length (pad6 (digits (scaled6 m e mod 1000000)))"
    by (rule length_pad6)
  ultimately have "8 \<le> length (to_string_double (Finite s m e))"
    by (simp add: Let_def)
  then show ?thesis using Finite by auto
next
  case (Infinity s)
  then show ?thesis by simp
next
  case (NaN s)
  then show ?thesis by simp
qed


section \<open>Properties of the connection wrapper\<close>

lemma commits_append: "commits (xs @ ys) = commits xs + commits ys"
  by (simp add: commits_def)

lemma rollbacks_append: "rollbacks (xs @ ys) = rollbacks xs + rollbacks ys"
  by (simp add: rollbacks_def)

lemma commits_bind_loop: "commits (bind_loop i ps) = 0"
  by (induction ps arbitrary: i) (simp_all add: commits_def)

lemma rollbacks_bind_loop: "rollbacks (bind_loop i ps) = 0"
  by (induction ps arbitrary: i) (simp_all add: rollbacks_def)

lemma commits_prepare_and_bind: "commits (prepare_and_bind q ps) = 0"
  using commits_bind_loop [of 0 ps] by (simp add: prepare_and_bind_def commits_def)

lemma rollbacks_prepare_and_bind: "rollbacks (prepare_and_bind q ps) = 0"
  using rollbacks_bind_loop [of 0 ps] by (simp add: prepare_and_bind_def rollbacks_def)

text \<open>
  C1. \<^verbatim>\<open>executeNonQuery\<close> ends its transaction exactly once, whatever the statement, its
  parameters and the client's answers. Either the statement executes and the commit goes
  through: then the call returns, the trace it adds holds one commit and no rollback. Or
  the execution fails (the statement, or the commit, throws \<open>e\<close>): then the trace it adds
  holds one rollback and no commit, the error is logged and \<open>e\<close> is thrown on to the
  caller. Never both, never neither.
\<close>

theorem executeNonQuery_commits_xor_rolls_back:
  "\<exists>t r. executeNonQuery c w h query params = (h @ t, r) \<and>
     ((r = Inr () \<and> commits t = 1 \<and> rollbacks t = 0 \<and>
       (\<exists>res. exec_result c (h @ [BeginWork (conn w)] @ prepare_and_bind query params)
               = Inr res) \<and>
       commit_result c
         (h @ [BeginWork (conn w)] @ prepare_and_bind query params @ [Exec Returned]) = None)
      \<or>
      (\<exists>e. r = Inl e \<and> commits t = 0 \<and> rollbacks t = 1 \<and>
         LogError (''Error executing non-query: '' @ what e) \<in> set t \<and>
         (exec_result c (h @ [BeginWork (conn w)] @ prepare_and_bind query params) = Inl e \<or>
          commit_result c
            (h @ [BeginWork (conn w)] @ prepare_and_bind query params @ [Exec Returned])
            = Some e)))"
proof (cases "exec_result c (h @ [BeginWork (conn w)] @ prepare_and_bind query params)")
  case (Inl e)
  let ?t = "[BeginWork (conn w)] @ prepare_and_bind query params @
            [Exec (Threw e), LogError (''Error executing non-query: '' @ what e), Abort]"
  have run: "executeNonQuery c w h query params = (h @ ?t, Inl e)"
    using Inl by (simp add: executeNonQuery_def)
  have "commits ?t = 0" and "rollbacks ?t = 1"
    using commits_prepare_and_bind [of query params]
      rollbacks_prepare_and_bind [of query params]
    by (simp_all add: commits_append rollbacks_append) (simp_all add: commits_def rollbacks_def)
  moreover have "LogError (''Error executing non-query: '' @ what e) \<in> set ?t"
    by simp
  ultimately show ?thesis
    using run Inl by blast
next
  case (Inr res)
  show ?thesis
  proof (cases "commit_result c
      (h @ [BeginWork (conn w)] @ prepare_and_bind query params @ [Exec Returned])")
    case None
    let ?t = "[BeginWork (conn w)] @ prepare_and_bind query params @
              [Exec Returned, Commit Returned]"
    have run: "executeNonQuery c w h query params = (h @ ?t, Inr ())"
      using Inr None by (simp add: executeNonQuery_def)
    have "commits ?t = 1" and "rollbacks ?t = 0"
      using commits_prepare_and_bind [of query params]
        rollbacks_prepare_and_bind [of query params]
      by (simp_all add: commits_append rollbacks_append) (simp_all add: commits_def rollbacks_def)
    then show ?thesis
      using run Inr None by blast
  next
    case (Some e)
    let ?t = "[BeginWork (conn w)] @ prepare_and_bind query params @
              [Exec Returned, Commit (Threw e),
               LogError (''Error executing non-query: '' @ what e), Abort]"
    have run: "executeNonQuery c w h query params = (h @ ?t, Inl e)"
      using Inr Some by (simp add: executeNonQuery_def)
    have "commits ?t = 0" and "rollbacks ?t = 1"
      using commits_prepare_and_bind [of query params]
        rollbacks_prepare_and_bind [of query params]
      by (simp_all add: commits_append rollbacks_append) (simp_all add: commits_def rollbacks_def)
    moreover have "LogError (''Error executing non-query: '' @ what e) \<in> set ?t"
      by simp
    ultimately show ?thesis
      using run Some by blast
  qed
qed

text \<open>The three ways the call can go, on concrete clients.\<close>

lemma executeNonQuery_run_ok:
  "executeNonQuery client_ok wrapper0 [] ''INSERT INTO orders (status) VALUES ($1)'' [''pending'']
     = ([BeginWork (conn wrapper0), Prepare ''INSERT INTO orders (status) VALUES ($1)'',
         BindParameter 1 ''pending'', Exec Returned, Commit Returned], Inr ())"
  by (simp add: executeNonQuery_def prepare_and_bind_def client_ok_def)

lemma executeNonQuery_run_failing:
  "executeNonQuery client_failing wrapper0 [] ''INSERT INTO orders (status) VALUES ($1)''
     [''pending'']
     = ([BeginWork (conn wrapper0), Prepare ''INSERT INTO orders (status) VALUES ($1)'',
         BindParameter 1 ''pending'', Exec (Threw (SqlError ''relation does not exist'')),
         LogError ''Error executing non-query: relation does not exist'', Abort],
        Inl (SqlError ''relation does not exist''))"
  by (simp add: executeNonQuery_def prepare_and_bind_def client_failing_def)

lemma executeNonQuery_run_commit_fails:
  "executeNonQuery client_commit_fails wrapper0 [] ''INSERT INTO orders (status) VALUES ($1)''
     [''pending'']
     = ([BeginWork (conn wrapper0), Prepare ''INSERT INTO orders (status) VALUES ($1)'',
         BindParameter 1 ''pending'', Exec Returned,
         Commit (Threw (SqlError ''could not serialize access'')),
         LogError ''Error executing non-query: could not serialize access'', Abort],
        Inl (SqlError ''could not serialize access''))"
  by (simp add: executeNonQuery_def prepare_and_bind_def client_commit_fails_def)

text \<open>
  C4. When the client reports the connection as not open, the constructor logs the
  failure and throws the \<^verbatim>\<open>std::runtime_error\<close> \<open>Failed to connect to database.\<close>; it
  returns no wrapper. Whenever it does return a wrapper, the connection was reported
  open, and the wrapper is the one for the given connection string, with no manual
  transaction.
\<close>

theorem DatabaseConnection_new_open_or_throws:
  "(\<not> is_open c (h @ [Connect connStr]) \<longrightarrow>
      DatabaseConnection_new c h connStr =
        (h @ [Connect connStr, LogError ''Failed to connect to database.''],
         Inl (RuntimeError ''Failed to connect to database.''))) \<and>
   (DatabaseConnection_new c h connStr = (h', Inr w) \<longrightarrow>
      is_open c (h @ [Connect connStr]) \<and> w = \<lparr>conn = connStr, txn = None\<rparr> \<and>
      h' = h @ [Connect connStr, LogInfo ''Connection to database established.''])"
  by (auto simp add: DatabaseConnection_new_def Let_def split: if_splits)

theorem DatabaseConnection_new_open_or_throws_witness:
  "\<not> is_open client_closed ([] @ [Connect (conn wrapper0)]) \<and>
   DatabaseConnection_new client_closed [] (conn wrapper0) =
     ([] @ [Connect (conn wrapper0), LogError ''Failed to connect to database.''],
      Inl (RuntimeError ''Failed to connect to database.'')) \<and>
   DatabaseConnection_new client_ok [] (conn wrapper0) =
     ([Connect (conn wrapper0), LogInfo ''Connection to database established.''], Inr wrapper0) \<and>
   is_open client_ok ([] @ [Connect (conn wrapper0)])"
  using DatabaseConnection_new_open_or_throws [of client_closed "[]" "conn wrapper0"]
    DatabaseConnection_new_open_or_throws [of client_ok "[]" "conn wrapper0"
      "[Connect (conn wrapper0), LogInfo ''Connection to database established.'']" wrapper0]
  by (simp add: client_closed_def client_ok_def wrapper0_def DatabaseConnection_new_def)

lemma row_loop_map: "row_loop fs rowData = rowData @ map c_str fs"
  by (induction fs arbitrary: rowData) simp_all

lemma result_loop_map: "result_loop rows result = result @ map (map c_str) rows"
  by (induction rows arbitrary: result) (simp_all add: row_loop_map)

text \<open>
  C5. When the execution of the statement yields a result of \<open>N\<close> rows with \<open>ncols\<close>
  fields each, \<^verbatim>\<open>executeQuery\<close> returns \<open>N\<close> rows, in the order of the result, each the
  texts of that row's fields in their order, so each of \<open>ncols\<close> texts.
\<close>

theorem executeQuery_returns_every_row:
  assumes "exec_result c (h @ [BeginNontransaction (conn w)] @ prepare_and_bind query params)
             = Inr res"
    and "\<forall>row \<in> set res. length row = ncols"
  shows "\<exists>h' rows. executeQuery c w h query params = (h', Inr rows) \<and>
           rows = map (map c_str) res \<and>
           length rows = length res \<and>
           (\<forall>r \<in> set rows. length r = ncols)"
  using assms by (simp add: executeQuery_def Let_def result_loop_map)

theorem executeQuery_returns_every_row_witness:
  "exec_result client_rows ([] @ [BeginNontransaction (conn wrapper0)] @
      prepare_and_bind ''SELECT status FROM orders WHERE order_id = $1'' [''1''])
     = Inr [[Text ''pending''], [Null]] \<and>
   map length [[Text ''pending''], [Null]] = [1, 1] \<and>
   executeQuery client_rows wrapper0 [] ''SELECT status FROM orders WHERE order_id = $1'' [''1'']
     = ([BeginNontransaction (conn wrapper0),
         Prepare ''SELECT status FROM orders WHERE order_id = $1'', BindParameter 1 ''1'',
         Exec Returned],
        Inr [[''pending''], [[]]])"
  using executeQuery_returns_every_row [of client_rows "[]" wrapper0
      "''SELECT status FROM orders WHERE order_id = $1''" "[''1'']"
      "[[Text ''pending''], [Null]]" 1]
  by (simp add: client_rows_def executeQuery_def prepare_and_bind_def)

text \<open>
  C10. On a wrapper whose manual transaction pointer is empty, \<^verbatim>\<open>commitTransaction\<close> and
  \<^verbatim>\<open>rollbackTransaction\<close> return without a call on the client: the trace is unchanged.
  A wrapper as the constructor returns it is such a wrapper, and only
  \<^verbatim>\<open>beginTransaction\<close> sets the pointer.
\<close>

theorem commit_and_rollback_without_transaction:
  "(txn w = None \<longrightarrow>
      commitTransaction c w h = (h, Inr ()) \<and> rollbackTransaction c w h = (h, Inr ())) \<and>
   (DatabaseConnection_new c h0 connStr = (h1, Inr w') \<longrightarrow>
      commitTransaction c w' h = (h, Inr ()) \<and> rollbackTransaction c w' h = (h, Inr ()))"
  by (auto simp add: commitTransaction_def rollbackTransaction_def DatabaseConnection_new_def
      Let_def split: if_splits)

theorem commit_and_rollback_without_transaction_witness:
  "txn wrapper0 = None \<and>
   commitTransaction client_ok wrapper0 [] = ([], Inr ()) \<and>
   rollbackTransaction client_ok wrapper0 [] = ([], Inr ()) \<and>
   DatabaseConnection_new client_ok [] (conn wrapper0) =
     ([Connect (conn wrapper0), LogInfo ''Connection to database established.''], Inr wrapper0)"
  using commit_and_rollback_without_transaction [of wrapper0 client_ok "[]" "[]"
      "conn wrapper0" "[Connect (conn wrapper0), LogInfo ''Connection to database established.'']"
      wrapper0]
  by (simp add: client_ok_def wrapper0_def DatabaseConnection_new_def)

text \<open>With a transaction begun, the two calls do reach the client.\<close>

lemma commit_with_transaction:
  "commitTransaction client_ok (snd (beginTransaction client_ok wrapper0 []))
      (fst (beginTransaction client_ok wrapper0 [])) =
     ([BeginWork (conn wrapper0), Commit Returned], Inr ())"
  by (simp add: commitTransaction_def beginTransaction_def client_ok_def)

lemma rollback_with_transaction:
  "rollbackTransaction client_ok (snd (beginTransaction client_ok wrapper0 []))
      (fst (beginTransaction client_ok wrapper0 [])) =
     ([BeginWork (conn wrapper0), Abort], Inr ())"
  by (simp add: rollbackTransaction_def beginTransaction_def)

section \<open>Properties of the role operations\<close>

lemmas role_defs =
  Admin_viewOrderStatus_def Admin_createOrder_def Admin_cancelOrder_def Admin_returnOrder_def
  Admin_addProduct_def Admin_deleteProduct_def
  Manager_viewOrderStatus_def Manager_createOrder_def Manager_cancelOrder_def
  Manager_returnOrder_def Manager_approveOrder_def
  Customer_viewOrderStatus_def Customer_createOrder_def Customer_cancelOrder_def
  Customer_returnOrder_def Customer_addToOrder_def Customer_removeFromOrder_def

lemma bound_params_bind_loop_end:
  "bound_params (bind_loop i ps @ Exec oc # evs) = bound_params (bind_loop i ps)"
  by (induction ps arbitrary: i) simp_all

lemma statements_bind_loop: "statements (bind_loop i ps @ evs) = statements evs"
  by (induction ps arbitrary: i) simp_all

lemma executions_bind_loop: "filter is_exec (bind_loop i ps) = []"
  by (induction ps arbitrary: i) simp_all

lemma Exec_notin_bind_loop: "Exec oc \<notin> set (bind_loop i ps)"
  by (induction ps arbitrary: i) simp_all

lemma Commit_notin_bind_loop: "Commit oc \<notin> set (bind_loop i ps)"
  by (induction ps arbitrary: i) simp_all

subsection \<open>The frame around a wrapper call\<close>

lemma catch_and_log_fold:
  "(case run of
      (h2, Inl e) \<Rightarrow> (h2 @ [LogError (m @ what e)], Inr ())
    | (h2, Inr r) \<Rightarrow> (h2, Inr ())) = catch_and_log m run"
  by (simp add: catch_and_log_def)

lemmas role_frames = role_defs Let_def catch_and_log_fold

lemma frame_returns: "snd (catch_and_log m run) = Inr ()"
  by (simp add: catch_and_log_def split: prod.splits sum.splits)

lemma frame_executeNonQuery_extends:
  "fst (catch_and_log m (executeNonQuery c w (h @ [Stdout l]) q ps)) =
     h @ added h (catch_and_log m (executeNonQuery c w (h @ [Stdout l]) q ps))"
  by (simp add: catch_and_log_def added_def executeNonQuery_def Let_def
      split: sum.splits option.splits)

lemma frame_executeQuery_extends:
  "fst (catch_and_log m (executeQuery c w (h @ [Stdout l]) q ps)) =
     h @ added h (catch_and_log m (executeQuery c w (h @ [Stdout l]) q ps))"
  by (simp add: catch_and_log_def added_def executeQuery_def Let_def
      split: sum.splits option.splits)

lemma frame_executeNonQuery_statements:
  "statements (added h (catch_and_log m (executeNonQuery c w (h @ [Stdout l]) q ps))) =
     [(q, bound_params (bind_loop 0 ps))]"
  by (simp add: catch_and_log_def added_def executeNonQuery_def prepare_and_bind_def Let_def
      bound_params_bind_loop_end statements_bind_loop split: sum.splits option.splits)

lemma frame_executeQuery_statements:
  "statements (added h (catch_and_log m (executeQuery c w (h @ [Stdout l]) q ps))) =
     [(q, bound_params (bind_loop 0 ps))]"
  by (simp add: catch_and_log_def added_def executeQuery_def prepare_and_bind_def Let_def
      bound_params_bind_loop_end statements_bind_loop split: sum.splits option.splits)

lemma frame_executeNonQuery_executions:
  "executions (added h (catch_and_log m (executeNonQuery c w (h @ [Stdout l]) q ps))) = 1"
  by (simp add: catch_and_log_def added_def executeNonQuery_def prepare_and_bind_def Let_def
      executions_def executions_bind_loop split: sum.splits option.splits)

lemma frame_executeQuery_executions:
  "executions (added h (catch_and_log m (executeQuery c w (h @ [Stdout l]) q ps))) = 1"
  by (simp add: catch_and_log_def added_def executeQuery_def prepare_and_bind_def Let_def
      executions_def executions_bind_loop split: sum.splits option.splits)

lemma frame_executeNonQuery_logs:
  "Exec (Threw e) \<in> set (added h (catch_and_log m (executeNonQuery c w (h @ [Stdout l]) q ps))) \<or>
   Commit (Threw e) \<in> set (added h (catch_and_log m (executeNonQuery c w (h @ [Stdout l]) q ps)))
   \<Longrightarrow> last (added h (catch_and_log m (executeNonQuery c w (h @ [Stdout l]) q ps))) =
         LogError (m @ what e)"
  by (auto simp add: catch_and_log_def added_def executeNonQuery_def prepare_and_bind_def Let_def
      Exec_notin_bind_loop Commit_notin_bind_loop split: sum.splits option.splits)

lemma frame_executeQuery_logs:
  "Exec (Threw e) \<in> set (added h (catch_and_log m (executeQuery c w (h @ [Stdout l]) q ps))) \<or>
   Commit (Threw e) \<in> set (added h (catch_and_log m (executeQuery c w (h @ [Stdout l]) q ps)))
   \<Longrightarrow> last (added h (catch_and_log m (executeQuery c w (h @ [Stdout l]) q ps))) =
         LogError (m @ what e)"
  by (auto simp add: catch_and_log_def added_def executeQuery_def prepare_and_bind_def Let_def
      Exec_notin_bind_loop Commit_notin_bind_loop split: sum.splits option.splits)

subsection \<open>All seventeen operations\<close>

lemma invoke_returns: "snd (invoke c w h op) = Inr ()"
  by (cases op) (simp_all add: role_frames frame_returns)

lemma invoke_never_throws: "invoke c w h op = (h', Inl e) \<Longrightarrow> False"
  using invoke_returns [of c w h op] by simp

lemma invoke_extends: "fst (invoke c w h op) = h @ added h (invoke c w h op)"
  by (cases op)
    (simp_all add: role_frames, (rule frame_executeNonQuery_extends frame_executeQuery_extends)+)

lemma invoke_executions: "executions (added h (invoke c w h op)) = 1"
  by (cases op)
    (simp_all add: role_frames frame_executeNonQuery_executions frame_executeQuery_executions)

lemma invoke_logs:
  assumes "Exec (Threw e) \<in> set (added h (invoke c w h op)) \<or>
           Commit (Threw e) \<in> set (added h (invoke c w h op))"
  shows "\<exists>m. last (added h (invoke c w h op)) = LogError (m @ what e)"
proof -
  have nq: "\<exists>m'. last (added h (catch_and_log m (executeNonQuery c w (h @ [Stdout l]) q ps))) =
         LogError (m' @ what e)"
    if "Exec (Threw e) \<in>
          set (added h (catch_and_log m (executeNonQuery c w (h @ [Stdout l]) q ps))) \<or>
        Commit (Threw e) \<in>
          set (added h (catch_and_log m (executeNonQuery c w (h @ [Stdout l]) q ps)))"
    for m l q ps
    using frame_executeNonQuery_logs [OF that] by blast
  have qu: "\<exists>m'. last (added h (catch_and_log m (executeQuery c w (h @ [Stdout l]) q ps))) =
         LogError (m' @ what e)"
    if "Exec (Threw e) \<in>
          set (added h (catch_and_log m (executeQuery c w (h @ [Stdout l]) q ps))) \<or>
        Commit (Threw e) \<in>
          set (added h (catch_and_log m (executeQuery c w (h @ [Stdout l]) q ps)))"
    for m l q ps
    using frame_executeQuery_logs [OF that] by blast
  from assms show ?thesis
    by (cases op) (simp_all add: role_frames, (erule nq qu)+)
qed

lemma invoke_no_delete_from_orders:
  "filter (\<lambda>(q, ps). is_delete_from ''orders'' q) (statements (added h (invoke c w h op))) = []"
  by (cases op)
    (simp_all add: role_frames frame_executeNonQuery_statements frame_executeQuery_statements
       is_delete_from_def)

subsection \<open>The statements of single operations\<close>

lemma Admin_addProduct_statements:
  "statements (added h (Admin_addProduct c w h name price stock)) =
     [(''INSERT INTO products (name, price, stock_quantity) VALUES ($1, $2, $3)'',
       [(1, name), (2, to_string_double price), (3, to_string_int stock)])]"
  by (simp add: role_frames frame_executeNonQuery_statements)

lemma Customer_addToOrder_statements:
  "statements (added h (Customer_addToOrder c w h orderId productId quantity)) =
     [(''INSERT INTO order_items (order_id, product_id, quantity) VALUES ($1, $2, $3)'',
       [(1, to_string_int orderId), (2, to_string_int productId), (3, to_string_int quantity)])]"
  by (simp add: role_frames frame_executeNonQuery_statements)

text \<open>
  C3, as the program has it. \<^verbatim>\<open>Admin::addProduct("Widget", 9.99, 10)\<close> issues one
  statement through the wrapper, executed once: the insert into \<open>products\<close>, with three
  parameters bound at positions 1, 2 and 3, whose texts are \<open>Widget\<close>, \<open>9.990000\<close> and
  \<open>10\<close>. The price is rendered by \<^verbatim>\<open>std::to_string(double)\<close>, with six decimals.
\<close>

theorem Admin_addProduct_Widget:
  "statements (added h (Admin_addProduct c w h ''Widget'' double_9_99 10)) =
     [(''INSERT INTO products (name, price, stock_quantity) VALUES ($1, $2, $3)'',
       [(1, ''Widget''), (2, ''9.990000''), (3, ''10'')])] \<and>
   executions (added h (Admin_addProduct c w h ''Widget'' double_9_99 10)) = 1"
  using invoke_executions [of h c w "AdminAddProduct ''Widget'' double_9_99 10"]
  by (simp add: Admin_addProduct_statements to_string_double_9_99 to_string_int_10)

text \<open>
  C3, as the claim has it, fails: the second parameter of that call is not the text
  \<open>9.99\<close>.
\<close>

theorem Admin_addProduct_Widget_not_9_99:
  "statements (added [] (Admin_addProduct client_ok wrapper0 [] ''Widget'' double_9_99 10)) \<noteq>
     [(''INSERT INTO products (name, price, stock_quantity) VALUES ($1, $2, $3)'',
       [(1, ''Widget''), (2, ''9.99''), (3, ''10'')])]"
  by (simp add: Admin_addProduct_statements to_string_double_9_99)

text \<open>Nor is it for any other price, whatever the client does.\<close>

lemma Admin_addProduct_never_9_99:
  "statements (added h (Admin_addProduct c w h name price stock)) \<noteq>
     [(''INSERT INTO products (name, price, stock_quantity) VALUES ($1, $2, $3)'',
       [(1, name), (2, ''9.99''), (3, ''10'')])]"
  using to_string_double_not_9_99 [of price] by (simp add: Admin_addProduct_statements)

text \<open>
  C7. \<^verbatim>\<open>Customer::addToOrder(1, 101, 2)\<close> issues one statement through the wrapper,
  executed once: the insert into \<open>order_items\<close>, with the parameters \<open>1\<close>, \<open>101\<close> and \<open>2\<close>
  bound at positions 1, 2 and 3.
\<close>

theorem Customer_addToOrder_1_101_2:
  "statements (added h (Customer_addToOrder c w h 1 101 2)) =
     [(''INSERT INTO order_items (order_id, product_id, quantity) VALUES ($1, $2, $3)'',
       [(1, ''1''), (2, ''101''), (3, ''2'')])] \<and>
   executions (added h (Customer_addToOrder c w h 1 101 2)) = 1"
  using invoke_executions [of h c w "CustomerAddToOrder 1 101 2"]
  by (simp add: Customer_addToOrder_statements to_string_int_1 to_string_int_2 to_string_int_101)

text \<open>
  C8. In each of the three roles \<^verbatim>\<open>createOrder\<close> issues one statement, executed once: the
  insert into \<open>orders\<close> whose only parameter is \<open>pending\<close>. And no operation of any role,
  on any arguments, issues a statement that deletes from \<open>orders\<close>.
\<close>

theorem createOrder_inserts_pending_orders_never_deleted:
  "statements (added h (Admin_createOrder c w h)) =
     [(''INSERT INTO orders (status) VALUES ($1)'', [(1, ''pending'')])] \<and>
   statements (added h (Manager_createOrder c w h)) =
     [(''INSERT INTO orders (status) VALUES ($1)'', [(1, ''pending'')])] \<and>
   statements (added h (Customer_createOrder c w h)) =
     [(''INSERT INTO orders (status) VALUES ($1)'', [(1, ''pending'')])] \<and>
   executions (added h (Admin_createOrder c w h)) = 1 \<and>
   executions (added h (Manager_createOrder c w h)) = 1 \<and>
   executions (added h (Customer_createOrder c w h)) = 1 \<and>
   filter (\<lambda>(q, ps). is_delete_from ''orders'' q) (statements (added h (invoke c w h op))) = []"
  using invoke_executions [of h c w AdminCreateOrder]
    invoke_executions [of h c w ManagerCreateOrder]
    invoke_executions [of h c w CustomerCreateOrder]
    invoke_no_delete_from_orders [of h c w op]
  by (simp add: role_frames frame_executeNonQuery_statements)

text \<open>The deletes that the roles do issue are on the other two relations.\<close>

lemma deleteProduct_deletes_from_products:
  "filter (\<lambda>(q, ps). is_delete_from ''products'' q)
     (statements (added h (Admin_deleteProduct c w h productId))) =
     [(''DELETE FROM products WHERE product_id = $1'', [(1, to_string_int productId)])]"
  by (simp add: role_frames frame_executeNonQuery_statements is_delete_from_def)

lemma removeFromOrder_deletes_from_order_items:
  "filter (\<lambda>(q, ps). is_delete_from ''order_items'' q)
     (statements (added h (Customer_removeFromOrder c w h orderId productId))) =
     [(''DELETE FROM order_items WHERE order_id = $1 AND product_id = $2'',
       [(1, to_string_int orderId), (2, to_string_int productId)])]"
  by (simp add: role_frames frame_executeNonQuery_statements is_delete_from_def)

subsection \<open>The shared operations\<close>

lemmas spec_defs =
  spec_viewOrderStatus_def spec_createOrder_def spec_cancelOrder_def spec_returnOrder_def

lemma spec_viewOrderStatus_statements:
  "statements (added h (spec_viewOrderStatus role c w h orderId)) =
     [(''SELECT status FROM orders WHERE order_id = $1'', [(1, to_string_int orderId)])]"
  by (simp add: spec_defs Let_def catch_and_log_fold frame_executeQuery_statements)

lemma spec_createOrder_statements:
  "statements (added h (spec_createOrder role c w h)) =
     [(''INSERT INTO orders (status) VALUES ($1)'', [(1, ''pending'')])]"
  by (simp add: spec_defs Let_def catch_and_log_fold frame_executeNonQuery_statements)

lemma spec_cancelOrder_statements:
  "statements (added h (spec_cancelOrder role c w h orderId)) =
     [(''UPDATE orders SET status = $1 WHERE order_id = $2'',
       [(1, ''canceled''), (2, to_string_int orderId)])]"
  by (simp add: spec_defs Let_def catch_and_log_fold frame_executeNonQuery_statements)

lemma spec_returnOrder_statements:
  "statements (added h (spec_returnOrder role c w h orderId)) =
     [(''UPDATE orders SET status = $1 WHERE order_id = $2'',
       [(1, ''returned''), (2, to_string_int orderId)])]"
  by (simp add: spec_defs Let_def catch_and_log_fold frame_executeNonQuery_statements)

lemmas spec_statements =
  spec_viewOrderStatus_statements spec_createOrder_statements spec_cancelOrder_statements
  spec_returnOrder_statements

text \<open>
  C9. Each of the four shared operations is, in each of the three roles, the one
  operation of the specification taken at that role's name, which only enters the line
  printed on the console; the roles' wrappers are opened with the same connection string
  but for the role's user and password. So on the same client, wrapper and trace the
  three roles' runs differ in that line only, and whatever the role, the client, the
  wrapper and the trace, an operation issues the same statement text with the same
  parameters.
\<close>

theorem shared_operations_same_in_every_role:
  "Admin_viewOrderStatus c w h orderId = spec_viewOrderStatus ''Admin'' c w h orderId \<and>
   Manager_viewOrderStatus c w h orderId = spec_viewOrderStatus ''Manager'' c w h orderId \<and>
   Customer_viewOrderStatus c w h orderId = spec_viewOrderStatus ''Customer'' c w h orderId \<and>
   Admin_createOrder c w h = spec_createOrder ''Admin'' c w h \<and>
   Manager_createOrder c w h = spec_createOrder ''Manager'' c w h \<and>
   Customer_createOrder c w h = spec_createOrder ''Customer'' c w h \<and>
   Admin_cancelOrder c w h orderId = spec_cancelOrder ''Admin'' c w h orderId \<and>
   Manager_cancelOrder c w h orderId = spec_cancelOrder ''Manager'' c w h orderId \<and>
   Customer_cancelOrder c w h orderId = spec_cancelOrder ''Customer'' c w h orderId \<and>
   Admin_returnOrder c w h orderId = spec_returnOrder ''Admin'' c w h orderId \<and>
   Manager_returnOrder c w h orderId = spec_returnOrder ''Manager'' c w h orderId \<and>
   Customer_returnOrder c w h orderId = spec_returnOrder ''Customer'' c w h orderId \<and>
   Admin_new c h = spec_new ''admin'' c h \<and>
   Manager_new c h = spec_new ''manager'' c h \<and>
   Customer_new c h = spec_new ''customer'' c h \<and>
   statements (added h (spec_viewOrderStatus role c w h orderId)) =
     statements (added h' (spec_viewOrderStatus role' c' w' h' orderId)) \<and>
   statements (added h (spec_createOrder role c w h)) =
     statements (added h' (spec_createOrder role' c' w' h')) \<and>
   statements (added h (spec_cancelOrder role c w h orderId)) =
     statements (added h' (spec_cancelOrder role' c' w' h' orderId)) \<and>
   statements (added h (spec_returnOrder role c w h orderId)) =
     statements (added h' (spec_returnOrder role' c' w' h' orderId))"
proof -
  have ops:
    "Admin_viewOrderStatus c w h orderId = spec_viewOrderStatus ''Admin'' c w h orderId"
    "Manager_viewOrderStatus c w h orderId = spec_viewOrderStatus ''Manager'' c w h orderId"
    "Customer_viewOrderStatus c w h orderId = spec_viewOrderStatus ''Customer'' c w h orderId"
    "Admin_createOrder c w h = spec_createOrder ''Admin'' c w h"
    "Manager_createOrder c w h = spec_createOrder ''Manager'' c w h"
    "Customer_createOrder c w h = spec_createOrder ''Customer'' c w h"
    "Admin_cancelOrder c w h orderId = spec_cancelOrder ''Admin'' c w h orderId"
    "Manager_cancelOrder c w h orderId = spec_cancelOrder ''Manager'' c w h orderId"
    "Customer_cancelOrder c w h orderId = spec_cancelOrder ''Customer'' c w h orderId"
    "Admin_returnOrder c w h orderId = spec_returnOrder ''Admin'' c w h orderId"
    "Manager_returnOrder c w h orderId = spec_returnOrder ''Manager'' c w h orderId"
    "Customer_returnOrder c w h orderId = spec_returnOrder ''Customer'' c w h orderId"
    by (simp_all add: role_defs spec_defs)
  have new:
    "Admin_new c h = spec_new ''admin'' c h"
    "Manager_new c h = spec_new ''manager'' c h"
    "Customer_new c h = spec_new ''customer'' c h"
    by (simp_all add: Admin_new_def Manager_new_def Customer_new_def spec_new_def)
  show ?thesis
    by (simp only: ops new spec_statements simp_thms)
qed

subsection \<open>What the operations log and print\<close>

lemma log_errors_bind_loop: "log_errors (bind_loop i ps @ evs) = log_errors evs"
  by (induction ps arbitrary: i) simp_all

lemma thrown_bind_loop: "thrown (bind_loop i ps @ evs) = thrown evs"
  by (induction ps arbitrary: i) simp_all

lemma frame_executeNonQuery_log_errors:
  "log_errors (added h (catch_and_log m (executeNonQuery c w (h @ [Stdout l]) q ps))) =
     concat (map (\<lambda>e. [''Error executing non-query: '' @ what e, m @ what e])
       (thrown (added h (catch_and_log m (executeNonQuery c w (h @ [Stdout l]) q ps)))))"
  by (simp add: catch_and_log_def added_def executeNonQuery_def prepare_and_bind_def Let_def
      log_errors_bind_loop thrown_bind_loop split: sum.splits option.splits)

lemma frame_executeQuery_log_errors:
  "log_errors (added h (catch_and_log m (executeQuery c w (h @ [Stdout l]) q ps))) =
     concat (map (\<lambda>e. [''Error executing query: '' @ what e, m @ what e])
       (thrown (added h (catch_and_log m (executeQuery c w (h @ [Stdout l]) q ps)))))"
  by (simp add: catch_and_log_def added_def executeQuery_def prepare_and_bind_def Let_def
      log_errors_bind_loop thrown_bind_loop split: sum.splits option.splits)

lemma frame_executeNonQuery_thrown:
  "length (thrown (added h (catch_and_log m (executeNonQuery c w (h @ [Stdout l]) q ps)))) \<le> 1"
  by (simp add: catch_and_log_def added_def executeNonQuery_def prepare_and_bind_def Let_def
      thrown_bind_loop split: sum.splits option.splits)

lemma frame_executeQuery_thrown:
  "length (thrown (added h (catch_and_log m (executeQuery c w (h @ [Stdout l]) q ps)))) \<le> 1"
  by (simp add: catch_and_log_def added_def executeQuery_def prepare_and_bind_def Let_def
      thrown_bind_loop split: sum.splits option.splits)

lemma frame_executeNonQuery_first:
  "take 1 (added h (catch_and_log m (executeNonQuery c w (h @ [Stdout l]) q ps))) = [Stdout l]"
  by (simp add: catch_and_log_def added_def executeNonQuery_def prepare_and_bind_def Let_def
      split: sum.splits option.splits)

lemma frame_executeQuery_first:
  "take 1 (added h (catch_and_log m (executeQuery c w (h @ [Stdout l]) q ps))) = [Stdout l]"
  by (simp add: catch_and_log_def added_def executeQuery_def prepare_and_bind_def Let_def
      split: sum.splits option.splits)

lemma invoke_log_errors:
  "log_errors (added h (invoke c w h op)) =
     concat (map (\<lambda>e. [wrapper_message op @ what e, catch_message op @ what e])
       (thrown (added h (invoke c w h op))))"
  by (cases op)
    (simp_all add: role_frames frame_executeNonQuery_log_errors frame_executeQuery_log_errors)

lemma invoke_thrown: "length (thrown (added h (invoke c w h op))) \<le> 1"
  by (cases op)
    (simp_all add: role_frames frame_executeNonQuery_thrown [simplified]
       frame_executeQuery_thrown [simplified])

lemma invoke_prints: "take 1 (added h (invoke c w h op)) = [Stdout (console_line op)]"
  by (cases op)
    (simp_all add: role_frames frame_executeNonQuery_first [simplified]
       frame_executeQuery_first [simplified])

lemma invoke_logs_last:
  assumes "Exec (Threw e) \<in> set (added h (invoke c w h op)) \<or>
           Commit (Threw e) \<in> set (added h (invoke c w h op))"
  shows "last (added h (invoke c w h op)) = LogError (catch_message op @ what e)"
  using assms
  by (cases op)
    (simp_all add: role_frames frame_executeNonQuery_logs frame_executeQuery_logs)


section \<open>Properties of the menu dispatcher\<close>

subsection \<open>The blocks of the three roles\<close>

lemma case_1_returns:
  "is_open c (h @ [Connect ''dbname=shopdb user=admin password=admin'']) \<Longrightarrow>
   snd (case_1 c h) = Inr ()"
  by (auto simp add: case_1_def Admin_new_def DatabaseConnection_new_def Let_def
      split: prod.splits sum.splits
      dest: invoke_never_throws [of _ _ _ "AdminAddProduct n p s" for n p s, simplified]
        invoke_never_throws [of _ _ _ "AdminDeleteProduct i" for i, simplified])

lemma case_2_returns:
  "is_open c (h @ [Connect ''dbname=shopdb user=manager password=manager'']) \<Longrightarrow>
   snd (case_2 c h) = Inr ()"
  by (auto simp add: case_2_def Manager_new_def DatabaseConnection_new_def Let_def
      split: prod.splits sum.splits
      dest: invoke_never_throws [of _ _ _ "ManagerApproveOrder i" for i, simplified])

lemma case_3_returns:
  "is_open c (h @ [Connect ''dbname=shopdb user=customer password=customer'']) \<Longrightarrow>
   snd (case_3 c h) = Inr ()"
  by (auto simp add: case_3_def Customer_new_def DatabaseConnection_new_def Let_def
      split: prod.splits sum.splits
      dest: invoke_never_throws [of _ _ _ "CustomerCreateOrder", simplified]
        invoke_never_throws [of _ _ _ "CustomerAddToOrder i j k" for i j k, simplified])








lemma loop_body_not_uncaught:
  "\<forall>h'. is_open c h' \<Longrightarrow> loop_body c junk cin h \<noteq> Uncaught e h2"
  using case_1_returns [of c "showMainMenu h"] case_2_returns [of c "showMainMenu h"]
    case_3_returns [of c "showMainMenu h"]
  by (auto simp add: loop_body_def Let_def split: option.splits prod.splits sum.splits)

lemma main_loop_not_terminated:
  "\<forall>h'. is_open c h' \<Longrightarrow> main_loop c junk fuel running cin h \<noteq> Some (h2, Terminated e)"
proof (induction fuel arbitrary: running cin h)
  case 0
  then show ?case by simp
next
  case (Suc fuel)
  show ?case
  proof (cases running)
    case False
    then show ?thesis by simp
  next
    case True
    show ?thesis
      using True Suc.IH [OF Suc.prems] loop_body_not_uncaught [OF Suc.prems, of junk cin h]
      by (cases "loop_body c junk cin h") auto
  qed
qed

lemma main_loop_failed_never_ends:
  "failbit cin \<Longrightarrow> \<forall>h. junk h \<notin> {1, 2, 3, 4} \<Longrightarrow> main_loop c junk fuel True cin h = None"
proof (induction fuel arbitrary: h)
  case 0
  then show ?case by simp
next
  case (Suc fuel)
  have "junk (showMainMenu h) \<notin> {1, 2, 3, 4}" using Suc.prems(2) by blast
  then have "loop_body c junk cin h =
      Next True cin (showMainMenu h @ [Stdout ''Invalid choice. Please try again.\<newline>''])"
    using Suc.prems(1) by (simp add: loop_body_def cin_extract_def Let_def)
  then show ?case using Suc.IH [OF Suc.prems] by simp
qed


subsection \<open>Exit and invalid choices\<close>



text \<open>
  After an extraction has failed no later input is read: with an indeterminate value
  that is never 1, 2, 3 or 4 the loop runs forever, whatever follows on the input.
\<close>

lemma out_of_range_then_4_never_exits:
  "main_loop c (\<lambda>h. INT_MAX) fuel True
     \<lparr>tokens = [Number 99999999999, Number 4], failbit = False\<rparr> h = None"
proof (cases fuel)
  case 0
  then show ?thesis by simp
next
  case (Suc n)
  have "loop_body c (\<lambda>h. INT_MAX) \<lparr>tokens = [Number 99999999999, Number 4], failbit = False\<rparr> h =
      Next True \<lparr>tokens = [Number 4], failbit = True\<rparr>
        (showMainMenu h @ [Stdout ''Invalid choice. Please try again.\<newline>''])"
    by (simp add: loop_body_def cin_extract_def INT_MAX_def INT_MIN_def Let_def)
  moreover have "main_loop c (\<lambda>h. INT_MAX) n True \<lparr>tokens = [Number 4], failbit = True\<rparr>
      (showMainMenu h @ [Stdout ''Invalid choice. Please try again.\<newline>'']) = None"
    by (rule main_loop_failed_never_ends) (simp_all add: INT_MAX_def)
  ultimately show ?thesis using Suc by simp
qed

text \<open>The program from its start, on the input 4.\<close>

lemma main_exits_on_4:
  "main c junk (Suc (Suc n)) (Number 4 # rest) =
     Some (showMainMenu [CreateLogger ''basic_logger'' ''logs.txt''], Exited)"
  by (simp add: main_def loop_body_def cin_extract_def INT_MAX_def INT_MIN_def Let_def)

subsection \<open>Errors of statements do not end the program\<close>

text \<open>
  C2. Every operation of every role, on any arguments and whatever the client answers,
  returns normally: its result carries no exception, and it only adds to the trace. It
  prints its line, and the statement is executed once. The client throws at most once
  in it; for an exception \<open>e\<close> thrown (by the statement or by the commit) exactly two
  errors are logged, first the wrapper's message with the text of \<open>e\<close>, then the message
  of the operation's own \<^verbatim>\<open>catch\<close> clause with the text of \<open>e\<close>, and that is the last
  thing the operation does; when nothing is thrown, nothing is logged. And the program
  goes on: as long as the connections open, no run of the menu loop is ended by an
  exception, whatever the statements do.
\<close>

theorem role_operations_log_and_swallow_errors:
  "snd (invoke c w h op) = Inr () \<and>
   fst (invoke c w h op) = h @ added h (invoke c w h op) \<and>
   take 1 (added h (invoke c w h op)) = [Stdout (console_line op)] \<and>
   executions (added h (invoke c w h op)) = 1 \<and>
   length (thrown (added h (invoke c w h op))) \<le> 1 \<and>
   log_errors (added h (invoke c w h op)) =
     concat (map (\<lambda>e. [wrapper_message op @ what e, catch_message op @ what e])
       (thrown (added h (invoke c w h op)))) \<and>
   (Exec (Threw e) \<in> set (added h (invoke c w h op)) \<or>
    Commit (Threw e) \<in> set (added h (invoke c w h op)) \<longrightarrow>
      last (added h (invoke c w h op)) = LogError (catch_message op @ what e)) \<and>
   ((\<forall>h'. is_open c h') \<longrightarrow>
      main_loop c junk fuel True cin h \<noteq> Some (h2, Terminated e'))"
  using invoke_returns [of c w h op] invoke_extends [of c w h op]
    invoke_prints [of h c w op] invoke_executions [of h c w op]
    invoke_thrown [of h c w op] invoke_log_errors [of h c w op]
    invoke_logs_last [of e h c w op] main_loop_not_terminated [of c junk fuel True cin h h2 e']
  by blast

theorem role_operations_log_and_swallow_errors_witness:
  "snd (invoke client_failing wrapper0 [] (CustomerViewOrderStatus 1)) = Inr () \<and>
   Exec (Threw (SqlError ''relation does not exist'')) \<in>
     set (added [] (invoke client_failing wrapper0 [] (CustomerViewOrderStatus 1))) \<and>
   log_errors (added [] (invoke client_failing wrapper0 [] (CustomerViewOrderStatus 1))) =
     [''Error executing query: relation does not exist'',
      ''Error viewing order status: relation does not exist''] \<and>
   last (added [] (invoke client_failing wrapper0 [] (CustomerViewOrderStatus 1))) =
     LogError ''Error viewing order status: relation does not exist'' \<and>
   (\<forall>h'. is_open client_failing h') \<and>
   map_option snd
     (main_loop client_failing junk0 (Suc (Suc 0)) True
        \<lparr>tokens = [Number 3], failbit = False\<rparr> []) = Some ShowingMenu"
  using role_operations_log_and_swallow_errors [of client_failing wrapper0 "[]"
      "CustomerViewOrderStatus 1" "SqlError ''relation does not exist''" junk0 "Suc (Suc 0)"
      "\<lparr>tokens = [Number 3], failbit = False\<rparr>"]
  by (simp add: Customer_viewOrderStatus_def Customer_createOrder_def Customer_addToOrder_def
      executeQuery_def executeNonQuery_def loop_body_def cin_extract_def INT_MAX_def INT_MIN_def
      prepare_and_bind_def added_def client_failing_def Let_def case_3_def Customer_new_def
      DatabaseConnection_new_def DatabaseConnection_delete_def junk0_def)

end
